theory Spec2Isabelle
  imports Main "HOL-Library.Sublist"
begin

section \<open>Errors, remote objects and the recorded API calls\<close>

text \<open>
  Go errors as values. \<open>NotFound\<close> is the API status error that
  \<open>apierrors.IsNotFound\<close> recognises; \<open>ErrWaitTimeout\<close> is the error of the poll
  driver when its deadline is reached; \<open>OtherError\<close> is any other failure, with its
  message.
\<close>

datatype error = NotFound | ErrWaitTimeout | OtherError string

fun IsNotFound :: "error \<Rightarrow> bool" where
  "IsNotFound NotFound = True"
| "IsNotFound _ = False"

text \<open>
  The condition types and statuses of the Kubernetes API are Go string types; the
  constants are the strings of the API.
\<close>

definition ConditionTrue :: string where "ConditionTrue = ''True''"
definition JobComplete :: string where "JobComplete = ''Complete''"
definition JobFailed :: string where "JobFailed = ''Failed''"
definition Established :: string where "Established = ''Established''"

record Condition =
  Type :: string
  Status :: string

record Job =
  JobName :: string
  JobConditions :: "Condition list"

record CustomResourceDefinition =
  CRDName :: string
  CRDConditions :: "Condition list"

record Secret =
  SecretName :: string
  Data :: "(string \<times> string) list"

record Pod =
  PodName :: string

record PodList =
  Items :: "Pod list"

record ListOptions =
  LabelSelector :: string

datatype WarningHandler = DefaultWarnings | NoWarnings

record Config =
  Host :: string
  WarningHandler :: WarningHandler

datatype Clientset = Clientset Config

datatype BatchV1Client = BatchV1Client Config

datatype ApiextensionsClientset = ApiextensionsClientset Config

text \<open>
  The platform strategies: \<open>SupportedPlatforms\<close> holds the first four in this order,
  \<open>Generic\<close> is the fallback of \<open>GetCluster\<close>.
\<close>

datatype Platform = Kind | K3s | Ibm | Minikube | Generic

definition SupportedPlatforms :: "Platform list" where
  "SupportedPlatforms = [Kind, K3s, Ibm, Minikube]"

text \<open>
  A \<open>Cluster\<close> as the methods below receive it: \<open>GetCluster\<close> sets \<open>RestConfig\<close> and
  \<open>Kubectl\<close> before anything reads them, so both are values here; \<open>platform\<close> is the
  interface field that is nil until detection has chosen.
\<close>

record Cluster =
  Kubectl :: Clientset
  RestConfig :: Config
  platform :: "Platform option"

text \<open>
  Every call that leaves the process is recorded, in the order made: reading the
  kubeconfig, building a client, a platform probe, a platform load, a read or a list of
  the cluster API, and one interval of waiting in the poll driver.
\<close>

datatype event =
    EvKubeConfig
  | EvNewForConfig Config
  | EvNewBatchForConfig
  | EvNewApiextensionsForConfig
  | EvDetect Platform
  | EvLoad Platform
  | EvGetJob string string
  | EvGetNamespace string
  | EvListPods string ListOptions
  | EvGetCRD string
  | EvGetSecret string string
  | EvTick

text \<open>
  The process state: the package variable \<open>clusterMemo\<close> (a nil pointer is \<open>None\<close>)
  and the calls made so far.
\<close>

record state =
  clusterMemo :: "Cluster option"
  calls :: "event list"

text \<open>
  The world outside the process. The answer to a call may depend on everything that
  was called before it (the cluster changes while the process waits), so each answer is
  a function of the calls made so far and of the arguments of the call. The kubeconfig
  loader, the client constructors and the platforms' \<open>Detect\<close> and \<open>Load\<close> are code
  outside the files at hand and are taken as they answer.
\<close>

record world =
  KubeConfig_answer :: "event list \<Rightarrow> error + Config"
  NewForConfig_answer :: "event list \<Rightarrow> Config \<Rightarrow> error + Clientset"
  NewBatchForConfig_answer :: "event list \<Rightarrow> Config \<Rightarrow> error + BatchV1Client"
  NewApiextensionsForConfig_answer ::
    "event list \<Rightarrow> Config \<Rightarrow> error + ApiextensionsClientset"
  Detect_answer :: "event list \<Rightarrow> Platform \<Rightarrow> Clientset \<Rightarrow> bool"
  Load_answer :: "event list \<Rightarrow> Platform \<Rightarrow> Clientset \<Rightarrow> error option"
  GetJob_answer :: "event list \<Rightarrow> string \<Rightarrow> string \<Rightarrow> error + Job"
  GetNamespace_answer :: "event list \<Rightarrow> string \<Rightarrow> error option"
  ListPods_answer :: "event list \<Rightarrow> string \<Rightarrow> ListOptions \<Rightarrow> error + PodList"
  GetCRD_answer :: "event list \<Rightarrow> string \<Rightarrow> error + CustomResourceDefinition"
  GetSecret_answer :: "event list \<Rightarrow> string \<Rightarrow> string \<Rightarrow> Secret option \<times> error option"

definition record_call :: "event \<Rightarrow> state \<Rightarrow> state" where
  "record_call ev s = s\<lparr>calls := calls s @ [ev]\<rparr>"

section \<open>The job-done condition\<close>

text \<open>\<open>client.Jobs(namespace).Get(ctx, jobName, metav1.GetOptions{})\<close>\<close>

definition Jobs_Get :: "world \<Rightarrow> string \<Rightarrow> string \<Rightarrow> state \<Rightarrow> (error + Job) \<times> state" where
  "Jobs_Get w namespace jobName s =
     (GetJob_answer w (calls s) namespace jobName, record_call (EvGetJob namespace jobName) s)"

text \<open>The loop of \<open>IsJobDone\<close> over \<open>job.Status.Conditions\<close>, returning at the first hit.\<close>

fun job_done_scan :: "Condition list \<Rightarrow> bool \<times> error option" where
  "job_done_scan [] = (False, None)"
| "job_done_scan (condition # rest) =
     (if Status condition = ConditionTrue \<and>
         (Type condition = JobFailed \<or> Type condition = JobComplete)
      then (True, None)
      else job_done_scan rest)"

definition IsJobDone ::
  "world \<Rightarrow> BatchV1Client \<Rightarrow> string \<Rightarrow> string \<Rightarrow> state \<Rightarrow> (bool \<times> error option) \<times> state" where
  "IsJobDone w client jobName namespace s =
     (case Jobs_Get w namespace jobName s of
        (Inl err, s') \<Rightarrow> ((False, Some err), s')
      | (Inr job, s') \<Rightarrow> (job_done_scan (JobConditions job), s'))"


section \<open>The poll driver\<close>

text \<open>
  A condition function is a closure: besides the process state it may read and assign
  variables of the function that built it. Those captured variables are the value
  \<open>'v\<close> that goes in and comes out; a closure that captures none is lifted by
  \<open>no_captures\<close>.
\<close>

type_synonym 'v ConditionFunc = "'v \<Rightarrow> state \<Rightarrow> (bool \<times> error option) \<times> 'v \<times> state"

definition no_captures ::
  "(state \<Rightarrow> (bool \<times> error option) \<times> state) \<Rightarrow> unit ConditionFunc" where
  "no_captures condition v s = (case condition s of (r, s') \<Rightarrow> (r, v, s'))"

text \<open>Durations are Go's \<open>time.Duration\<close>: a count of nanoseconds.\<close>

definition Second :: int where "Second = 1000000000"

text \<open>
  Modelled from the spec: the loop of \<open>wait.PollImmediate\<close> of \<open>k8s.io/apimachinery\<close>,
  which the wait methods call and whose code is not among the source files. Section
  4.1: the condition is invoked immediately; an error of the condition ends the poll
  with that error; a satisfied condition ends it with success; otherwise the condition
  is invoked again at each interval boundary, and when no boundary is left within the
  timeout the poll ends with the timeout error. The first argument is the number of
  interval boundaries left, and each interval waited is recorded.
\<close>

fun poll :: "nat \<Rightarrow> 'v ConditionFunc \<Rightarrow> 'v \<Rightarrow> state \<Rightarrow> error option \<times> 'v \<times> state" where
  "poll 0 condition v s =
     (case condition v s of
        ((ok, err), v', s') \<Rightarrow>
          (case err of
             Some e \<Rightarrow> (Some e, v', s')
           | None \<Rightarrow> if ok then (None, v', s') else (Some ErrWaitTimeout, v', s')))"
| "poll (Suc n) condition v s =
     (case condition v s of
        ((ok, err), v', s') \<Rightarrow>
          (case err of
             Some e \<Rightarrow> (Some e, v', s')
           | None \<Rightarrow> if ok then (None, v', s')
                     else poll n condition v' (record_call EvTick s')))"

text \<open>
  Modelled from the spec: \<open>wait.PollImmediate(interval, timeout, condition)\<close>, not among
  the source files. The interval boundaries within the timeout are those at
  \<open>interval\<close>, \<open>2 * interval\<close>, ... up to \<open>timeout\<close>; a timeout shorter than the interval
  polls exactly once. Every caller passes \<open>time.Second\<close> as the interval.
\<close>

definition PollImmediate ::
  "int \<Rightarrow> int \<Rightarrow> 'v ConditionFunc \<Rightarrow> 'v \<Rightarrow> state \<Rightarrow> error option \<times> 'v \<times> state" where
  "PollImmediate interval timeout condition v s =
     poll (nat (timeout div interval)) condition v s"

section \<open>The remaining condition functions\<close>

text \<open>\<open>c.Kubectl.CoreV1().Namespaces().Get(ctx, namespaceName, metav1.GetOptions{})\<close>;
  the namespace object read is dropped by the only caller, so the answer is its error.\<close>

definition Namespaces_Get :: "world \<Rightarrow> Cluster \<Rightarrow> string \<Rightarrow> state \<Rightarrow> error option \<times> state" where
  "Namespaces_Get w c namespaceName s =
     (GetNamespace_answer w (calls s) namespaceName, record_call (EvGetNamespace namespaceName) s)"

definition NamespaceExists ::
  "world \<Rightarrow> Cluster \<Rightarrow> string \<Rightarrow> state \<Rightarrow> (bool \<times> error option) \<times> state" where
  "NamespaceExists w c namespaceName s =
     (case Namespaces_Get w c namespaceName s of
        (Some err, s') \<Rightarrow>
          if IsNotFound err then ((False, None), s') else ((False, Some err), s')
      | (None, s') \<Rightarrow> ((True, None), s'))"

definition NamespaceDoesNotExist ::
  "world \<Rightarrow> Cluster \<Rightarrow> string \<Rightarrow> state \<Rightarrow> (bool \<times> error option) \<times> state" where
  "NamespaceDoesNotExist w c namespaceName s =
     (case NamespaceExists w c namespaceName s of
        ((exists, err), s') \<Rightarrow> ((\<not> exists, err), s'))"

text \<open>\<open>c.Kubectl.CoreV1().Pods(namespace).List(ctx, listOptions)\<close>\<close>

definition Pods_List ::
  "world \<Rightarrow> Cluster \<Rightarrow> string \<Rightarrow> ListOptions \<Rightarrow> state \<Rightarrow> (error + PodList) \<times> state" where
  "Pods_List w c namespace listOptions s =
     (ListPods_answer w (calls s) namespace listOptions,
      record_call (EvListPods namespace listOptions) s)"

definition ListPods ::
  "world \<Rightarrow> Cluster \<Rightarrow> string \<Rightarrow> string \<Rightarrow> state \<Rightarrow> (error + PodList) \<times> state" where
  "ListPods w c namespace selector s =
     (let listOptions = \<lparr>LabelSelector = []\<rparr>;
          listOptions = (if length selector > 0
                         then listOptions\<lparr>LabelSelector := selector\<rparr> else listOptions)
      in case Pods_List w c namespace listOptions s of
           (Inl err, s') \<Rightarrow> (Inl err, s')
         | (Inr podList, s') \<Rightarrow> (Inr podList, s'))"

definition PodDoesNotExist ::
  "world \<Rightarrow> Cluster \<Rightarrow> string \<Rightarrow> string \<Rightarrow> state \<Rightarrow> (bool \<times> error option) \<times> state" where
  "PodDoesNotExist w c namespace selector s =
     (case ListPods w c namespace selector s of
        (Inl err, s') \<Rightarrow> ((True, None), s')
      | (Inr podList, s') \<Rightarrow>
          if length (Items podList) > 0 then ((False, None), s') else ((True, None), s'))"

section \<open>The wait methods\<close>

text \<open>\<open>typedbatchv1.NewForConfig(c.RestConfig)\<close>\<close>

definition NewBatchForConfig ::
  "world \<Rightarrow> Config \<Rightarrow> state \<Rightarrow> (error + BatchV1Client) \<times> state" where
  "NewBatchForConfig w config s =
     (NewBatchForConfig_answer w (calls s) config, record_call EvNewBatchForConfig s)"

definition WaitForJobDone ::
  "world \<Rightarrow> Cluster \<Rightarrow> string \<Rightarrow> string \<Rightarrow> int \<Rightarrow> state \<Rightarrow> error option \<times> state" where
  "WaitForJobDone w c namespace jobName timeout s =
     (case NewBatchForConfig w (RestConfig c) s of
        (Inl err, s') \<Rightarrow> (Some err, s')
      | (Inr client, s') \<Rightarrow>
          (case PollImmediate Second timeout
                  (no_captures (IsJobDone w client jobName namespace)) () s' of
             (err, _, s'') \<Rightarrow> (err, s'')))"

definition WaitForNamespaceMissing ::
  "world \<Rightarrow> Cluster \<Rightarrow> string \<Rightarrow> int \<Rightarrow> state \<Rightarrow> error option \<times> state" where
  "WaitForNamespaceMissing w c namespace timeout s =
     (case PollImmediate Second timeout
             (no_captures (NamespaceDoesNotExist w c namespace)) () s of
        (err, _, s') \<Rightarrow> (err, s'))"

definition WaitForPodBySelectorMissing ::
  "world \<Rightarrow> Cluster \<Rightarrow> string \<Rightarrow> string \<Rightarrow> int \<Rightarrow> state \<Rightarrow> error option \<times> state" where
  "WaitForPodBySelectorMissing w c namespace selector timeout s =
     (case PollImmediate Second timeout
             (no_captures (PodDoesNotExist w c namespace selector)) () s of
        (err, _, s') \<Rightarrow> (err, s'))"

text \<open>\<open>c.Kubectl.CoreV1().Secrets(namespace).Get(ctx, name, metav1.GetOptions{})\<close>: the
  pointer and the error, as the client returns them.\<close>

definition GetSecret ::
  "world \<Rightarrow> Cluster \<Rightarrow> string \<Rightarrow> string \<Rightarrow> state \<Rightarrow> (Secret option \<times> error option) \<times> state" where
  "GetSecret w c namespace name s =
     (GetSecret_answer w (calls s) namespace name, record_call (EvGetSecret namespace name) s)"

text \<open>
  The closure of \<open>WaitForSecret\<close>. It assigns the variable \<open>secret\<close> of the enclosing
  function at every evaluation, whatever the read returned.
\<close>

definition WaitForSecret_condition ::
  "world \<Rightarrow> Cluster \<Rightarrow> string \<Rightarrow> string \<Rightarrow> (Secret option) ConditionFunc" where
  "WaitForSecret_condition w c namespace secretName secret s =
     (case GetSecret w c namespace secretName s of
        ((secret', Some err), s') \<Rightarrow>
          if IsNotFound err then ((False, None), secret', s')
          else ((False, Some err), secret', s')
      | ((secret', None), s') \<Rightarrow> ((True, None), secret', s'))"

definition WaitForSecret ::
  "world \<Rightarrow> Cluster \<Rightarrow> string \<Rightarrow> string \<Rightarrow> int \<Rightarrow> state \<Rightarrow>
   (Secret option \<times> error option) \<times> state" where
  "WaitForSecret w c namespace secretName timeout s =
     (case PollImmediate Second timeout
             (WaitForSecret_condition w c namespace secretName) None s of
        (waitErr, secret, s') \<Rightarrow> ((secret, waitErr), s'))"







section \<open>Platform detection and the memoized cluster handle\<close>

definition KubeConfig :: "world \<Rightarrow> state \<Rightarrow> (error + Config) \<times> state" where
  "KubeConfig w s = (KubeConfig_answer w (calls s), record_call EvKubeConfig s)"

definition CopyConfig :: "Config \<Rightarrow> Config" where
  "CopyConfig config = config"

definition NewForConfig :: "world \<Rightarrow> Config \<Rightarrow> state \<Rightarrow> (error + Clientset) \<times> state" where
  "NewForConfig w config s =
     (NewForConfig_answer w (calls s) config, record_call (EvNewForConfig config) s)"

definition Detect :: "world \<Rightarrow> Platform \<Rightarrow> Clientset \<Rightarrow> state \<Rightarrow> bool \<times> state" where
  "Detect w p kubectl s = (Detect_answer w (calls s) p kubectl, record_call (EvDetect p) s)"

definition Load :: "world \<Rightarrow> Platform \<Rightarrow> Clientset \<Rightarrow> state \<Rightarrow> error option \<times> state" where
  "Load w p clientset s = (Load_answer w (calls s) p clientset, record_call (EvLoad p) s)"

text \<open>
  The loop of \<open>detectPlatform\<close> over a strategy list. The handle under construction
  has no platform yet, so it is given by its client; the result is the platform
  assigned, \<open>None\<close> when the loop ends without a match.
\<close>

fun detect_loop ::
  "world \<Rightarrow> Platform list \<Rightarrow> Clientset \<Rightarrow> state \<Rightarrow> Platform option \<times> state" where
  "detect_loop w [] kubectl s = (None, s)"
| "detect_loop w (p # ps) kubectl s =
     (case Detect w p kubectl s of
        (True, s') \<Rightarrow> (Some p, s')
      | (False, s') \<Rightarrow> detect_loop w ps kubectl s')"

definition detectPlatform :: "world \<Rightarrow> Clientset \<Rightarrow> state \<Rightarrow> Platform option \<times> state" where
  "detectPlatform w kubectl s = detect_loop w SupportedPlatforms kubectl s"

text \<open>
  \<open>GetCluster\<close> returns the pair of Go: the handle (or nil) and the error (or nil).
\<close>

definition GetCluster :: "world \<Rightarrow> state \<Rightarrow> (Cluster option \<times> error option) \<times> state" where
  "GetCluster w s =
     (case clusterMemo s of
        Some memo \<Rightarrow> ((Some memo, None), s)
      | None \<Rightarrow>
          (case KubeConfig w s of
             (Inl err, s1) \<Rightarrow> ((None, Some err), s1)
           | (Inr restConfig, s1) \<Rightarrow>
               (let config = (CopyConfig restConfig)\<lparr>WarningHandler := NoWarnings\<rparr>
                in case NewForConfig w config s1 of
                     (Inl err, s2) \<Rightarrow> ((None, Some err), s2)
                   | (Inr clientset, s2) \<Rightarrow>
                       (case detectPlatform w clientset s2 of
                          (detected, s3) \<Rightarrow>
                            (let p = (case detected of None \<Rightarrow> Generic | Some q \<Rightarrow> q);
                                 c = \<lparr>Kubectl = clientset, RestConfig = restConfig,
                                      platform = Some p\<rparr>
                             in case Load w p clientset s3 of
                                  (Some err, s4) \<Rightarrow> ((None, Some err), s4)
                                | (None, s4) \<Rightarrow>
                                    ((Some c, None), s4\<lparr>clusterMemo := Some c\<rparr>))))))"

section \<open>Registry connection details\<close>

record RegistryCredentials =
  URL :: string
  Username :: string
  Password :: string

record ContainerRegistryAuth =
  Auth :: string
  AuthUsername :: string
  AuthPassword :: string

record DockerConfigJSON =
  Auths :: "string \<rightharpoonup> ContainerRegistryAuth"

record ConnectionDetails =
  RegistryCredentials :: "RegistryCredentials list"
  Namespace :: string

text \<open>
  \<open>base64.StdEncoding.EncodeToString\<close>: the standard alphabet of RFC 4648 with \<open>=\<close>
  padding, over the bytes of the string taken three at a time.
\<close>

definition encodeStd :: string where
  "encodeStd = ''ABCDEFGHIJKLMNOPQRSTUVWXYZabcdefghijklmnopqrstuvwxyz0123456789+/''"

definition sextet :: "nat \<Rightarrow> char" where
  "sextet n = encodeStd ! (n mod 64)"

fun encode_bytes :: "nat list \<Rightarrow> string" where
  "encode_bytes [] = []"
| "encode_bytes [a] =
     [sextet (a div 4), sextet ((a mod 4) * 16), CHR ''='', CHR ''='']"
| "encode_bytes [a, b] =
     [sextet (a div 4), sextet ((a mod 4) * 16 + b div 16), sextet ((b mod 16) * 4),
      CHR ''='']"
| "encode_bytes (a # b # c # rest) =
     [sextet (a div 4), sextet ((a mod 4) * 16 + b div 16),
      sextet ((b mod 16) * 4 + c div 64), sextet (c mod 64)] @ encode_bytes rest"

definition EncodeToString :: "string \<Rightarrow> string" where
  "EncodeToString src = encode_bytes (map of_char src)"

text \<open>The loop of \<open>DockerConfigJSON\<close> over the credentials, writing into \<open>result.Auths\<close>.\<close>

fun DockerConfigJSON_loop ::
  "RegistryCredentials list \<Rightarrow> DockerConfigJSON \<Rightarrow> error + DockerConfigJSON" where
  "DockerConfigJSON_loop [] result = Inr result"
| "DockerConfigJSON_loop (r # rs) result =
     (if URL r = [] then Inl (OtherError ''url must be specified'')
      else
        (let auth = \<lparr>Auth = EncodeToString (Username r @ '':'' @ Password r),
                     AuthUsername = Username r,
                     AuthPassword = Password r\<rparr>
         in DockerConfigJSON_loop rs (result\<lparr>Auths := (Auths result)(URL r \<mapsto> auth)\<rparr>)))"

definition DockerConfigJSON :: "ConnectionDetails \<Rightarrow> error + DockerConfigJSON" where
  "DockerConfigJSON d = DockerConfigJSON_loop (RegistryCredentials d) \<lparr>Auths = Map.empty\<rparr>"

text \<open>
  The regular expression \<open>127\.0\.0\.1\<close> has no operator: compiling it succeeds and it
  matches the strings that contain \<open>127.0.0.1\<close>.
\<close>

datatype Regexp = Literal string

definition Compile_localhost :: "error + Regexp" where
  "Compile_localhost = Inr (Literal ''127.0.0.1'')"

fun MatchString :: "Regexp \<Rightarrow> string \<Rightarrow> bool" where
  "MatchString (Literal l) s = sublist l s"

fun first_url_where :: "(string \<Rightarrow> bool) \<Rightarrow> RegistryCredentials list \<Rightarrow> string" where
  "first_url_where P [] = []"
| "first_url_where P (credentials # rest) =
     (if P (URL credentials) then URL credentials else first_url_where P rest)"

definition PublicRegistryURL :: "ConnectionDetails \<Rightarrow> string \<times> error option" where
  "PublicRegistryURL d =
     (case Compile_localhost of
        Inl err \<Rightarrow> ([], Some err)
      | Inr r \<Rightarrow> (first_url_where (\<lambda>u. \<not> MatchString r u) (RegistryCredentials d), None))"

definition PrivateRegistryURL :: "ConnectionDetails \<Rightarrow> string \<times> error option" where
  "PrivateRegistryURL d =
     (case Compile_localhost of
        Inl err \<Rightarrow> ([], Some err)
      | Inr r \<Rightarrow> (first_url_where (\<lambda>u. MatchString r u) (RegistryCredentials d), None))"

text \<open>
  The image reference parser is a library outside the source files: it is the
  parameter \<open>parse\<close>, answering with the registry and the name of the reference or with
  an error.
\<close>

definition ExtractImageParts ::
  "(string \<Rightarrow> error + string \<times> string) \<Rightarrow> string \<Rightarrow> string \<times> string \<times> error option" where
  "ExtractImageParts parse imageURL =
     (case parse imageURL of
        Inl err \<Rightarrow> ([], [], Some err)
      | Inr (registry, name) \<Rightarrow> (registry, name, None))"

text \<open>
  \<open>strings.Replace(s, old, new, -1)\<close>: every non-overlapping occurrence of \<open>old\<close>, from
  the left. For an empty \<open>old\<close> Go inserts \<open>new\<close> before every UTF-8 sequence and at the
  end; the model inserts it before every byte, which is the same on ASCII.
\<close>

fun replace_from :: "string \<Rightarrow> string \<Rightarrow> string \<Rightarrow> string" where
  "replace_from old new [] = []"
| "replace_from old new (c # cs) =
     (if old \<noteq> [] \<and> prefix old (c # cs)
      then new @ replace_from old new (drop (length old - 1) cs)
      else c # replace_from old new cs)"

definition Replace :: "string \<Rightarrow> string \<Rightarrow> string \<Rightarrow> string" where
  "Replace s old new =
     (if old = new then s
      else if old = [] then concat (map (\<lambda>c. new @ [c]) s) @ new
      else replace_from old new s)"

definition ReplaceWithInternalRegistry ::
  "(string \<Rightarrow> error + string \<times> string) \<Rightarrow> ConnectionDetails \<Rightarrow> string \<Rightarrow>
   string \<times> error option" where
  "ReplaceWithInternalRegistry parse d imageURL =
     (case PrivateRegistryURL d of
        (privateURL, Some err) \<Rightarrow> (imageURL, Some err)
      | (privateURL, None) \<Rightarrow>
          if privateURL = [] then (imageURL, None)
          else
            (case PublicRegistryURL d of
               (publicURL, Some err) \<Rightarrow> (imageURL, Some err)
             | (publicURL, None) \<Rightarrow>
                 (case ExtractImageParts parse imageURL of
                    (imageRegistryURL, _, Some err) \<Rightarrow> (imageURL, Some err)
                  | (imageRegistryURL, _, None) \<Rightarrow>
                      if imageRegistryURL = publicURL
                      then (Replace imageURL imageRegistryURL privateURL, None)
                      else (imageURL, None))))"

text \<open>The loads among the recorded calls.\<close>

fun is_Load :: "event \<Rightarrow> bool" where
  "is_Load (EvLoad p) = True"
| "is_Load _ = False"

section \<open>Concrete worlds\<close>

text \<open>
  Worlds and inputs at which the theorems below are instantiated. In \<open>quiet_world\<close>
  every call succeeds at once: the cluster is a k3s cluster, the job is complete, the
  namespace exists, no pod matches, the CRD is established and the secret is there.
\<close>

definition quiet_world :: world where
  "quiet_world =
     \<lparr>KubeConfig_answer = (\<lambda>h. Inr \<lparr>Host = ''https://10.0.0.1:6443'', WarningHandler = DefaultWarnings\<rparr>),
      NewForConfig_answer = (\<lambda>h config. Inr (Clientset config)),
      NewBatchForConfig_answer = (\<lambda>h config. Inr (BatchV1Client config)),
      NewApiextensionsForConfig_answer = (\<lambda>h config. Inr (ApiextensionsClientset config)),
      Detect_answer = (\<lambda>h p kubectl. p = K3s),
      Load_answer = (\<lambda>h p kubectl. None),
      GetJob_answer = (\<lambda>h namespace name.
         Inr \<lparr>JobName = name, JobConditions = [\<lparr>Type = ''Complete'', Status = ''True''\<rparr>]\<rparr>),
      GetNamespace_answer = (\<lambda>h name. None),
      ListPods_answer = (\<lambda>h namespace options. Inr \<lparr>Items = []\<rparr>),
      GetCRD_answer = (\<lambda>h name.
         Inr \<lparr>CRDName = name, CRDConditions = [\<lparr>Type = ''Established'', Status = ''True''\<rparr>]\<rparr>),
      GetSecret_answer = (\<lambda>h namespace name.
         (Some \<lparr>SecretName = name, Data = [(''username'', ''dev'')]\<rparr>, None))\<rparr>"

definition start :: state where
  "start = \<lparr>clusterMemo = None, calls = []\<rparr>"

definition handle :: Cluster where
  "handle = \<lparr>Kubectl = Clientset \<lparr>Host = ''https://10.0.0.1:6443'', WarningHandler = NoWarnings\<rparr>,
             RestConfig = \<lparr>Host = ''https://10.0.0.1:6443'', WarningHandler = DefaultWarnings\<rparr>,
             platform = Some K3s\<rparr>"

definition world_job_running :: world where
  "world_job_running = quiet_world\<lparr>GetJob_answer := (\<lambda>h namespace name.
      Inr \<lparr>JobName = name, JobConditions =
        [\<lparr>Type = ''Suspended'', Status = ''True''\<rparr>, \<lparr>Type = ''Failed'', Status = ''False''\<rparr>]\<rparr>)\<rparr>"

definition world_job_forbidden :: world where
  "world_job_forbidden = quiet_world\<lparr>GetJob_answer := (\<lambda>h namespace name.
      Inl (OtherError ''forbidden''))\<rparr>"

definition batch_client :: BatchV1Client where
  "batch_client = BatchV1Client \<lparr>Host = ''https://10.0.0.1:6443'', WarningHandler = DefaultWarnings\<rparr>"

definition world_pods_unreachable :: world where
  "world_pods_unreachable = quiet_world\<lparr>ListPods_answer := (\<lambda>h namespace options.
      Inl (OtherError ''connection refused''))\<rparr>"

definition world_pods_running :: world where
  "world_pods_running = quiet_world\<lparr>ListPods_answer := (\<lambda>h namespace options.
      Inr \<lparr>Items = [\<lparr>PodName = ''gitea-0''\<rparr>]\<rparr>)\<rparr>"

definition world_namespace_gone :: world where
  "world_namespace_gone = quiet_world\<lparr>GetNamespace_answer := (\<lambda>h name. Some NotFound)\<rparr>"

definition the_secret :: Secret where
  "the_secret = \<lparr>SecretName = ''gitea-creds'', Data = [(''username'', ''dev'')]\<rparr>"

definition world_secret_late :: world where
  "world_secret_late = quiet_world\<lparr>GetSecret_answer := (\<lambda>h namespace name.
      if length (filter (\<lambda>ev. ev = EvTick) h) < 2 then (None, Some NotFound)
      else (Some the_secret, None))\<rparr>"

definition world_secret_forbidden :: world where
  "world_secret_forbidden = quiet_world\<lparr>GetSecret_answer := (\<lambda>h namespace name.
      (None, Some (OtherError ''forbidden'')))\<rparr>"


definition world_load_flaky :: world where
  "world_load_flaky = quiet_world\<lparr>Load_answer := (\<lambda>h p kubectl.
      if filter is_Load h = [] then Some (OtherError ''no external ip'') else None)\<rparr>"


definition quiet_config :: Config where
  "quiet_config = \<lparr>Host = ''https://10.0.0.1:6443'', WarningHandler = NoWarnings\<rparr>"

definition first_attempt :: state where
  "first_attempt = \<lparr>clusterMemo = None, calls =
     [EvKubeConfig, EvNewForConfig quiet_config, EvDetect Kind, EvDetect K3s, EvLoad K3s]\<rparr>"

definition second_attempt :: state where
  "second_attempt = \<lparr>clusterMemo = Some handle, calls =
     [EvKubeConfig, EvNewForConfig quiet_config, EvDetect Kind, EvDetect K3s, EvLoad K3s,
      EvKubeConfig, EvNewForConfig quiet_config, EvDetect Kind, EvDetect K3s, EvLoad K3s]\<rparr>"




definition alice :: RegistryCredentials where
  "alice = \<lparr>URL = ''registry.example.com'', Username = ''alice'', Password = ''wonder''\<rparr>"

definition bob :: RegistryCredentials where
  "bob = \<lparr>URL = ''registry.example.com'', Username = ''bob'', Password = ''builder''\<rparr>"

definition local_registry :: RegistryCredentials where
  "local_registry = \<lparr>URL = ''127.0.0.1:30500'', Username = ''admin'', Password = ''password''\<rparr>"

definition dup_details :: ConnectionDetails where
  "dup_details = \<lparr>RegistryCredentials = [alice, bob], Namespace = ''apps''\<rparr>"

definition external_details :: ConnectionDetails where
  "external_details = \<lparr>RegistryCredentials = [alice], Namespace = ''apps''\<rparr>"

definition internal_details :: ConnectionDetails where
  "internal_details = \<lparr>RegistryCredentials = [local_registry, alice], Namespace = ''apps''\<rparr>"

definition empty_url_details :: ConnectionDetails where
  "empty_url_details =
     \<lparr>RegistryCredentials = [alice, \<lparr>URL = [], Username = ''eve'', Password = ''x''\<rparr>],
      Namespace = ''apps''\<rparr>"

definition failing_parse :: "string \<Rightarrow> error + string \<times> string" where
  "failing_parse imageURL = Inl (OtherError ''invalid reference format'')"

definition bob_auth :: ContainerRegistryAuth where
  "bob_auth = \<lparr>Auth = ''Ym9iOmJ1aWxkZXI='', AuthUsername = ''bob'', AuthPassword = ''builder''\<rparr>"

definition dup_result :: DockerConfigJSON where
  "dup_result = \<lparr>Auths = [''registry.example.com'' \<mapsto> bob_auth]\<rparr>"

section \<open>The job-done condition is satisfied by a terminal job\<close>

lemmas consts_defs = ConditionTrue_def JobComplete_def JobFailed_def Established_def

lemma job_done_scan_iff:
  "job_done_scan cs = (True, None) \<longleftrightarrow>
     (\<exists>condition \<in> set cs. Status condition = ConditionTrue \<and>
        (Type condition = JobFailed \<or> Type condition = JobComplete))"
  by (induction cs) auto

lemma job_done_scan_cases: "job_done_scan cs = (True, None) \<or> job_done_scan cs = (False, None)"
  by (induction cs) auto

text \<open>
  C3. One evaluation of the condition of \<open>IsJobDone\<close> makes one read of the job. It
  returns \<open>(true, nil)\<close> exactly when the read succeeds and some entry of the job's status
  conditions has status True and type Failed or Complete; when the read succeeds and no
  entry is such it returns \<open>(false, nil)\<close>; when the read fails it returns false with the
  error of the read.
\<close>

theorem IsJobDone_satisfied_iff:
  "(fst (IsJobDone w client jobName namespace s) = (True, None) \<longleftrightarrow>
      (\<exists>job. GetJob_answer w (calls s) namespace jobName = Inr job \<and>
         (\<exists>condition \<in> set (JobConditions job). Status condition = ConditionTrue \<and>
            (Type condition = JobFailed \<or> Type condition = JobComplete)))) \<and>
   (\<forall>job. GetJob_answer w (calls s) namespace jobName = Inr job \<and>
      \<not> (\<exists>condition \<in> set (JobConditions job). Status condition = ConditionTrue \<and>
            (Type condition = JobFailed \<or> Type condition = JobComplete)) \<longrightarrow>
      fst (IsJobDone w client jobName namespace s) = (False, None)) \<and>
   (\<forall>err. GetJob_answer w (calls s) namespace jobName = Inl err \<longrightarrow>
      fst (IsJobDone w client jobName namespace s) = (False, Some err)) \<and>
   snd (IsJobDone w client jobName namespace s) = record_call (EvGetJob namespace jobName) s"
proof -
  show ?thesis
  proof (cases "GetJob_answer w (calls s) namespace jobName")
    case (Inl err)
    then show ?thesis by (simp add: IsJobDone_def Jobs_Get_def)
  next
    case (Inr job)
    then show ?thesis
      using job_done_scan_iff [of "JobConditions job"] job_done_scan_cases [of "JobConditions job"]
      by (auto simp: IsJobDone_def Jobs_Get_def)
  qed
qed

theorem IsJobDone_satisfied_iff_witness:
  "fst (IsJobDone quiet_world batch_client ''install'' ''linkerd'' start) = (True, None) \<and>
   fst (IsJobDone world_job_running batch_client ''install'' ''linkerd'' start) = (False, None) \<and>
   fst (IsJobDone world_job_forbidden batch_client ''install'' ''linkerd'' start) =
     (False, Some (OtherError ''forbidden''))"
proof -
  have a: "GetJob_answer quiet_world (calls start) ''linkerd'' ''install'' =
      Inr \<lparr>JobName = ''install'', JobConditions = [\<lparr>Type = ''Complete'', Status = ''True''\<rparr>]\<rparr>"
    by (simp add: quiet_world_def)
  have b: "GetJob_answer world_job_running (calls start) ''linkerd'' ''install'' =
      Inr \<lparr>JobName = ''install'', JobConditions =
        [\<lparr>Type = ''Suspended'', Status = ''True''\<rparr>, \<lparr>Type = ''Failed'', Status = ''False''\<rparr>]\<rparr>"
    by (simp add: world_job_running_def)
  have c: "GetJob_answer world_job_forbidden (calls start) ''linkerd'' ''install'' =
      Inl (OtherError ''forbidden'')"
    by (simp add: world_job_forbidden_def)
  show ?thesis
    using IsJobDone_satisfied_iff [of quiet_world batch_client "''install''" "''linkerd''" start]
      IsJobDone_satisfied_iff [of world_job_running batch_client "''install''" "''linkerd''" start]
      IsJobDone_satisfied_iff [of world_job_forbidden batch_client "''install''" "''linkerd''" start]
    by (simp add: a b c consts_defs)
qed

section \<open>The pod-absent condition swallows every list error\<close>

text \<open>
  C4. The condition of \<open>PodDoesNotExist\<close> returns \<open>(true, nil)\<close> whenever the list of the
  pods fails, whatever the error; it returns \<open>(false, nil)\<close> exactly when the list succeeds
  with at least one pod; it returns \<open>(true, nil)\<close> when the list succeeds and is empty; its
  error is always nil.
\<close>

theorem PodDoesNotExist_outcomes:
  "(\<forall>err. ListPods_answer w (calls s) namespace \<lparr>LabelSelector = selector\<rparr> = Inl err \<longrightarrow>
      fst (PodDoesNotExist w c namespace selector s) = (True, None)) \<and>
   (fst (PodDoesNotExist w c namespace selector s) = (False, None) \<longleftrightarrow>
      (\<exists>podList. ListPods_answer w (calls s) namespace \<lparr>LabelSelector = selector\<rparr> = Inr podList \<and>
         Items podList \<noteq> [])) \<and>
   (\<forall>podList. ListPods_answer w (calls s) namespace \<lparr>LabelSelector = selector\<rparr> = Inr podList \<and>
      Items podList = [] \<longrightarrow>
      fst (PodDoesNotExist w c namespace selector s) = (True, None)) \<and>
   snd (fst (PodDoesNotExist w c namespace selector s)) = None"
proof -
  have list: "ListPods w c namespace selector s =
      (ListPods_answer w (calls s) namespace \<lparr>LabelSelector = selector\<rparr>,
       record_call (EvListPods namespace \<lparr>LabelSelector = selector\<rparr>) s)"
    by (cases "selector = []")
       (simp_all add: ListPods_def Pods_List_def Let_def split: sum.split)
  show ?thesis
    by (cases "ListPods_answer w (calls s) namespace \<lparr>LabelSelector = selector\<rparr>")
       (simp_all add: PodDoesNotExist_def list)
qed

theorem PodDoesNotExist_outcomes_witness:
  "fst (PodDoesNotExist world_pods_unreachable handle ''gitea'' ''app=gitea'' start) = (True, None) \<and>
   fst (PodDoesNotExist world_pods_running handle ''gitea'' ''app=gitea'' start) = (False, None) \<and>
   fst (PodDoesNotExist quiet_world handle ''gitea'' ''app=gitea'' start) = (True, None)"
proof -
  have a: "ListPods_answer world_pods_unreachable (calls start) ''gitea''
             \<lparr>LabelSelector = ''app=gitea''\<rparr> = Inl (OtherError ''connection refused'')"
    by (simp add: world_pods_unreachable_def)
  have b: "ListPods_answer world_pods_running (calls start) ''gitea''
             \<lparr>LabelSelector = ''app=gitea''\<rparr> = Inr \<lparr>Items = [\<lparr>PodName = ''gitea-0''\<rparr>]\<rparr>"
    by (simp add: world_pods_running_def)
  have c: "ListPods_answer quiet_world (calls start) ''gitea''
             \<lparr>LabelSelector = ''app=gitea''\<rparr> = Inr \<lparr>Items = []\<rparr>"
    by (simp add: quiet_world_def)
  show ?thesis
    using PodDoesNotExist_outcomes [of world_pods_unreachable start "''gitea''" "''app=gitea''" handle]
      PodDoesNotExist_outcomes [of world_pods_running start "''gitea''" "''app=gitea''" handle]
      PodDoesNotExist_outcomes [of quiet_world start "''gitea''" "''app=gitea''" handle]
    by (simp add: a b c)
qed

section \<open>The namespace-absent condition\<close>

text \<open>
  C7. The condition of \<open>NamespaceDoesNotExist\<close> returns \<open>(false, nil)\<close> when the read of
  the namespace succeeds and \<open>(true, nil)\<close> when the read reports not-found; at every
  input its boolean is the negation of the boolean of \<open>NamespaceExists\<close>, with the same
  error and the same single read.
\<close>

theorem NamespaceDoesNotExist_negates_NamespaceExists:
  "(GetNamespace_answer w (calls s) namespaceName = None \<longrightarrow>
      fst (NamespaceDoesNotExist w c namespaceName s) = (False, None)) \<and>
   (\<forall>err. GetNamespace_answer w (calls s) namespaceName = Some err \<and> IsNotFound err \<longrightarrow>
      fst (NamespaceDoesNotExist w c namespaceName s) = (True, None)) \<and>
   fst (fst (NamespaceDoesNotExist w c namespaceName s)) =
     (\<not> fst (fst (NamespaceExists w c namespaceName s))) \<and>
   snd (fst (NamespaceDoesNotExist w c namespaceName s)) =
     snd (fst (NamespaceExists w c namespaceName s)) \<and>
   snd (NamespaceDoesNotExist w c namespaceName s) = snd (NamespaceExists w c namespaceName s)"
  by (cases "GetNamespace_answer w (calls s) namespaceName")
     (simp_all add: NamespaceDoesNotExist_def NamespaceExists_def Namespaces_Get_def)

theorem NamespaceDoesNotExist_negates_NamespaceExists_witness:
  "fst (NamespaceDoesNotExist quiet_world handle ''linkerd'' start) = (False, None) \<and>
   fst (NamespaceDoesNotExist world_namespace_gone handle ''linkerd'' start) = (True, None)"
proof -
  have a: "GetNamespace_answer quiet_world (calls start) ''linkerd'' = None"
    by (simp add: quiet_world_def)
  have b: "GetNamespace_answer world_namespace_gone (calls start) ''linkerd'' = Some NotFound"
    by (simp add: world_namespace_gone_def)
  show ?thesis
    using NamespaceDoesNotExist_negates_NamespaceExists [of quiet_world start "''linkerd''" handle]
      NamespaceDoesNotExist_negates_NamespaceExists [of world_namespace_gone start "''linkerd''" handle]
    by (simp add: a b)
qed

section \<open>The poll driver evaluates at once and stops at the first error\<close>

lemma poll_first_satisfied:
  "condition v s = ((True, None), v', s') \<Longrightarrow> poll n condition v s = (None, v', s')"
  by (cases n) simp_all

lemma poll_first_error:
  "condition v s = ((ok, Some e), v', s') \<Longrightarrow> poll n condition v s = (Some e, v', s')"
  by (cases n) simp_all

lemma poll_not_yet:
  "condition v s = ((False, None), v', s') \<Longrightarrow>
   poll (Suc n) condition v s = poll n condition v' (record_call EvTick s')"
  by simp

lemma poll_timeout:
  "condition v s = ((False, None), v', s') \<Longrightarrow>
   poll 0 condition v s = (Some ErrWaitTimeout, v', s')"
  by simp

text \<open>
  C8. For every condition, interval and timeout the poll driver evaluates the condition
  on the state it is given, before any interval has passed. When that evaluation is
  satisfied the poll returns success in the state the evaluation left, no interval
  waited; when it returns an error the poll returns that error, unchanged, in the state
  the evaluation left. The same holds at every later evaluation, since an evaluation
  that is neither waits one interval and polls again with one boundary less.
\<close>

theorem PollImmediate_first_evaluation:
  "(\<forall>v' s'. condition v s = ((True, None), v', s') \<longrightarrow>
      PollImmediate interval timeout condition v s = (None, v', s')) \<and>
   (\<forall>ok e v' s'. condition v s = ((ok, Some e), v', s') \<longrightarrow>
      PollImmediate interval timeout condition v s = (Some e, v', s')) \<and>
   (\<forall>n ok e v' s'. condition v s = ((ok, Some e), v', s') \<longrightarrow>
      poll n condition v s = (Some e, v', s')) \<and>
   (\<forall>n v' s'. condition v s = ((False, None), v', s') \<longrightarrow>
      poll (Suc n) condition v s = poll n condition v' (record_call EvTick s'))"
  using poll_first_satisfied [of condition v s] poll_first_error [of condition v s]
  by (simp add: PollImmediate_def)

theorem PollImmediate_first_evaluation_witness:
  "PollImmediate Second (5 * Second)
     (no_captures (IsJobDone quiet_world batch_client ''install'' ''linkerd'')) () start =
     (None, (), \<lparr>clusterMemo = None, calls = [EvGetJob ''linkerd'' ''install'']\<rparr>) \<and>
   PollImmediate Second (5 * Second)
     (no_captures (IsJobDone world_job_forbidden batch_client ''install'' ''linkerd'')) () start =
     (Some (OtherError ''forbidden''), (),
      \<lparr>clusterMemo = None, calls = [EvGetJob ''linkerd'' ''install'']\<rparr>) \<and>
   poll (Suc 0)
     (no_captures (IsJobDone world_job_running batch_client ''install'' ''linkerd'')) () start =
   poll 0
     (no_captures (IsJobDone world_job_running batch_client ''install'' ''linkerd'')) ()
     \<lparr>clusterMemo = None, calls = [EvGetJob ''linkerd'' ''install'', EvTick]\<rparr>"
proof -
  let ?s = "\<lparr>clusterMemo = None, calls = [EvGetJob ''linkerd'' ''install'']\<rparr>"
  have a: "no_captures (IsJobDone quiet_world batch_client ''install'' ''linkerd'') () start =
      ((True, None), (), ?s)"
    by (simp add: no_captures_def IsJobDone_def Jobs_Get_def quiet_world_def start_def
        record_call_def consts_defs)
  have b: "no_captures (IsJobDone world_job_forbidden batch_client ''install'' ''linkerd'') () start =
      ((False, Some (OtherError ''forbidden'')), (), ?s)"
    by (simp add: no_captures_def IsJobDone_def Jobs_Get_def world_job_forbidden_def start_def
        record_call_def)
  have c: "no_captures (IsJobDone world_job_running batch_client ''install'' ''linkerd'') () start =
      ((False, None), (), ?s)"
    by (simp add: no_captures_def IsJobDone_def Jobs_Get_def world_job_running_def start_def
        record_call_def consts_defs)
  have t: "record_call EvTick ?s =
      \<lparr>clusterMemo = None, calls = [EvGetJob ''linkerd'' ''install'', EvTick]\<rparr>"
    by (simp add: record_call_def)
  note jd = PollImmediate_first_evaluation
      [of "no_captures (IsJobDone quiet_world batch_client ''install'' ''linkerd'')" "()" start
          Second "5 * Second"]
  note jf = PollImmediate_first_evaluation
      [of "no_captures (IsJobDone world_job_forbidden batch_client ''install'' ''linkerd'')" "()"
          start Second "5 * Second"]
  note jr = PollImmediate_first_evaluation
      [of "no_captures (IsJobDone world_job_running batch_client ''install'' ''linkerd'')" "()"
          start Second "5 * Second"]
  from jd a have r1: "PollImmediate Second (5 * Second)
     (no_captures (IsJobDone quiet_world batch_client ''install'' ''linkerd'')) () start =
     (None, (), ?s)"
    by blast
  from jf b have r2: "PollImmediate Second (5 * Second)
     (no_captures (IsJobDone world_job_forbidden batch_client ''install'' ''linkerd'')) () start =
     (Some (OtherError ''forbidden''), (), ?s)"
    by blast
  from jr c have r3: "poll (Suc 0)
     (no_captures (IsJobDone world_job_running batch_client ''install'' ''linkerd'')) () start =
     poll 0 (no_captures (IsJobDone world_job_running batch_client ''install'' ''linkerd'')) ()
       (record_call EvTick ?s)"
    by blast
  show ?thesis
    using r1 r2 r3 by (simp only: t)
qed

section \<open>Waiting for a secret\<close>

lemma WaitForSecret_condition_eval:
  "WaitForSecret_condition w c namespace secretName v s =
     (case GetSecret_answer w (calls s) namespace secretName of
        (secret, Some err) \<Rightarrow>
          ((False, if IsNotFound err then None else Some err), secret,
           record_call (EvGetSecret namespace secretName) s)
      | (secret, None) \<Rightarrow> ((True, None), secret, record_call (EvGetSecret namespace secretName) s))"
  by (simp add: WaitForSecret_condition_def GetSecret_def split: prod.split option.split)

lemma poll_WaitForSecret_success_last_read:
  "poll n (WaitForSecret_condition w c namespace secretName) v s = (None, secret, s') \<Longrightarrow>
   calls s' \<noteq> [] \<and> last (calls s') = EvGetSecret namespace secretName \<and>
   GetSecret_answer w (butlast (calls s')) namespace secretName = (secret, None)"
proof (induction n arbitrary: v s)
  case 0
  then show ?case
    by (auto simp: WaitForSecret_condition_eval record_call_def
        split: prod.splits option.splits if_splits)
next
  case (Suc n)
  then show ?case
    by (auto simp: WaitForSecret_condition_eval record_call_def
        split: prod.splits option.splits if_splits)
qed

text \<open>
  C6. At any evaluation of the condition of \<open>WaitForSecret\<close>: a not-found error of the
  read is not-yet, the condition returns \<open>(false, nil)\<close> and the poll goes on to the next
  interval; any other error of the read ends the poll with that error; a successful
  read ends it with the secret read and a nil error. When \<open>WaitForSecret\<close> returns a nil
  error, the secret it returns is the one its last read returned.
\<close>

theorem WaitForSecret_read_outcomes:
  "(\<forall>secret err. GetSecret_answer w (calls s) namespace secretName = (secret, Some err) \<and>
       IsNotFound err \<longrightarrow>
       WaitForSecret_condition w c namespace secretName v s =
         ((False, None), secret, record_call (EvGetSecret namespace secretName) s) \<and>
       poll (Suc n) (WaitForSecret_condition w c namespace secretName) v s =
         poll n (WaitForSecret_condition w c namespace secretName) secret
           (record_call EvTick (record_call (EvGetSecret namespace secretName) s))) \<and>
   (\<forall>secret err. GetSecret_answer w (calls s) namespace secretName = (secret, Some err) \<and>
       \<not> IsNotFound err \<longrightarrow>
       poll n (WaitForSecret_condition w c namespace secretName) v s =
         (Some err, secret, record_call (EvGetSecret namespace secretName) s) \<and>
       WaitForSecret w c namespace secretName timeout s =
         ((secret, Some err), record_call (EvGetSecret namespace secretName) s)) \<and>
   (\<forall>secret. GetSecret_answer w (calls s) namespace secretName = (secret, None) \<longrightarrow>
       poll n (WaitForSecret_condition w c namespace secretName) v s =
         (None, secret, record_call (EvGetSecret namespace secretName) s) \<and>
       WaitForSecret w c namespace secretName timeout s =
         ((secret, None), record_call (EvGetSecret namespace secretName) s)) \<and>
   (\<forall>secret s'. WaitForSecret w c namespace secretName timeout s = ((secret, None), s') \<longrightarrow>
       last (calls s') = EvGetSecret namespace secretName \<and>
       GetSecret_answer w (butlast (calls s')) namespace secretName = (secret, None))"
proof (intro conjI allI impI)
  fix secret err
  assume h: "GetSecret_answer w (calls s) namespace secretName = (secret, Some err) \<and> IsNotFound err"
  then show c1: "WaitForSecret_condition w c namespace secretName v s =
         ((False, None), secret, record_call (EvGetSecret namespace secretName) s)"
    by (simp add: WaitForSecret_condition_eval)
  show "poll (Suc n) (WaitForSecret_condition w c namespace secretName) v s =
         poll n (WaitForSecret_condition w c namespace secretName) secret
           (record_call EvTick (record_call (EvGetSecret namespace secretName) s))"
    using poll_not_yet [of "WaitForSecret_condition w c namespace secretName" v s secret "record_call (EvGetSecret namespace secretName) s" n] c1
    by simp
next
  fix secret err
  assume h: "GetSecret_answer w (calls s) namespace secretName = (secret, Some err) \<and> \<not> IsNotFound err"
  then have c2: "\<And>v. WaitForSecret_condition w c namespace secretName v s =
         ((False, Some err), secret, record_call (EvGetSecret namespace secretName) s)"
    by (simp add: WaitForSecret_condition_eval)
  show "poll n (WaitForSecret_condition w c namespace secretName) v s =
         (Some err, secret, record_call (EvGetSecret namespace secretName) s)"
    using poll_first_error [of "WaitForSecret_condition w c namespace secretName" v s False err secret
        "record_call (EvGetSecret namespace secretName) s" n] c2
    by simp
  show "WaitForSecret w c namespace secretName timeout s =
         ((secret, Some err), record_call (EvGetSecret namespace secretName) s)"
    using poll_first_error [of "WaitForSecret_condition w c namespace secretName" None s False err secret
        "record_call (EvGetSecret namespace secretName) s" "nat (timeout div Second)"] c2
    by (simp add: WaitForSecret_def PollImmediate_def)
next
  fix secret
  assume h: "GetSecret_answer w (calls s) namespace secretName = (secret, None)"
  then have c3: "\<And>v. WaitForSecret_condition w c namespace secretName v s =
         ((True, None), secret, record_call (EvGetSecret namespace secretName) s)"
    by (simp add: WaitForSecret_condition_eval)
  show "poll n (WaitForSecret_condition w c namespace secretName) v s =
         (None, secret, record_call (EvGetSecret namespace secretName) s)"
    using poll_first_satisfied [of "WaitForSecret_condition w c namespace secretName" v s secret
        "record_call (EvGetSecret namespace secretName) s" n] c3
    by simp
  show "WaitForSecret w c namespace secretName timeout s =
         ((secret, None), record_call (EvGetSecret namespace secretName) s)"
    using poll_first_satisfied [of "WaitForSecret_condition w c namespace secretName" None s secret
        "record_call (EvGetSecret namespace secretName) s" "nat (timeout div Second)"] c3
    by (simp add: WaitForSecret_def PollImmediate_def)
next
  fix secret s'
  assume h: "WaitForSecret w c namespace secretName timeout s = ((secret, None), s')"
  then have "poll (nat (timeout div Second)) (WaitForSecret_condition w c namespace secretName)
      None s = (None, secret, s')"
    by (simp add: WaitForSecret_def PollImmediate_def split: prod.splits)
  from poll_WaitForSecret_success_last_read [OF this]
  show "last (calls s') = EvGetSecret namespace secretName"
    and "GetSecret_answer w (butlast (calls s')) namespace secretName = (secret, None)"
    by simp_all
qed

lemma five_seconds: "nat (5 * Second div Second) = Suc (Suc (Suc (Suc (Suc 0))))"
  by (simp add: Second_def)

theorem WaitForSecret_read_outcomes_witness:
  "WaitForSecret_condition world_secret_late handle ''tekton'' ''gitea-creds'' None start =
     ((False, None), None, \<lparr>clusterMemo = None, calls = [EvGetSecret ''tekton'' ''gitea-creds'']\<rparr>) \<and>
   WaitForSecret world_secret_forbidden handle ''tekton'' ''gitea-creds'' (5 * Second) start =
     ((None, Some (OtherError ''forbidden'')),
      \<lparr>clusterMemo = None, calls = [EvGetSecret ''tekton'' ''gitea-creds'']\<rparr>) \<and>
   WaitForSecret world_secret_late handle ''tekton'' ''gitea-creds'' (5 * Second) start =
     ((Some the_secret, None),
      \<lparr>clusterMemo = None, calls =
         [EvGetSecret ''tekton'' ''gitea-creds'', EvTick,
          EvGetSecret ''tekton'' ''gitea-creds'', EvTick,
          EvGetSecret ''tekton'' ''gitea-creds'']\<rparr>) \<and>
   GetSecret_answer world_secret_late
     [EvGetSecret ''tekton'' ''gitea-creds'', EvTick, EvGetSecret ''tekton'' ''gitea-creds'', EvTick]
     ''tekton'' ''gitea-creds'' = (Some the_secret, None)"
proof -
  let ?get = "EvGetSecret ''tekton'' ''gitea-creds''"
  have a: "GetSecret_answer world_secret_late (calls start) ''tekton'' ''gitea-creds'' =
      (None, Some NotFound) \<and> IsNotFound NotFound"
    by (simp add: world_secret_late_def start_def)
  have b: "GetSecret_answer world_secret_forbidden (calls start) ''tekton'' ''gitea-creds'' =
      (None, Some (OtherError ''forbidden'')) \<and> \<not> IsNotFound (OtherError ''forbidden'')"
    by (simp add: world_secret_forbidden_def)
  have c: "WaitForSecret world_secret_late handle ''tekton'' ''gitea-creds'' (5 * Second) start =
      ((Some the_secret, None),
       \<lparr>clusterMemo = None, calls = [?get, EvTick, ?get, EvTick, ?get]\<rparr>)"
    unfolding WaitForSecret_def PollImmediate_def five_seconds
    by (simp add: WaitForSecret_condition_eval world_secret_late_def start_def record_call_def)
  have r: "record_call ?get start = \<lparr>clusterMemo = None, calls = [?get]\<rparr>"
    by (simp add: record_call_def start_def)
  note late = WaitForSecret_read_outcomes
      [of world_secret_late start "''tekton''" "''gitea-creds''" handle None 0 "5 * Second"]
  note forbidden = WaitForSecret_read_outcomes
      [of world_secret_forbidden start "''tekton''" "''gitea-creds''" handle None 0 "5 * Second"]
  from late a have r1: "WaitForSecret_condition world_secret_late handle ''tekton''
      ''gitea-creds'' None start = ((False, None), None, record_call ?get start)"
    by blast
  from forbidden b have r2: "WaitForSecret world_secret_forbidden handle ''tekton''
      ''gitea-creds'' (5 * Second) start =
      ((None, Some (OtherError ''forbidden'')), record_call ?get start)"
    by blast
  from late c have r4: "GetSecret_answer world_secret_late
      (butlast (calls \<lparr>clusterMemo = None, calls = [?get, EvTick, ?get, EvTick, ?get]\<rparr>))
      ''tekton'' ''gitea-creds'' = (Some the_secret, None)"
    by blast
  show ?thesis
    using r1 r2 c r4 by (simp add: r)
qed

section \<open>Waiting for a CRD in two phases\<close>






section \<open>Platform detection stops at the first match\<close>



lemma detect_loop_calls:
  "\<exists>qs. snd (detect_loop w ps kubectl s) = s\<lparr>calls := calls s @ map EvDetect qs\<rparr>"
proof (induction ps arbitrary: s)
  case Nil
  have "snd (detect_loop w [] kubectl s) = s\<lparr>calls := calls s @ map EvDetect []\<rparr>" by simp
  then show ?case by blast
next
  case (Cons q ps)
  show ?case
  proof (cases "Detect_answer w (calls s) q kubectl")
    case True
    then have "snd (detect_loop w (q # ps) kubectl s) = s\<lparr>calls := calls s @ map EvDetect [q]\<rparr>"
      by (simp add: Detect_def record_call_def)
    then show ?thesis by blast
  next
    case False
    from Cons.IH [of "record_call (EvDetect q) s"] obtain qs where
      "snd (detect_loop w ps kubectl (record_call (EvDetect q) s)) =
         (record_call (EvDetect q) s)\<lparr>calls := calls (record_call (EvDetect q) s) @ map EvDetect qs\<rparr>"
      by blast
    with False have "snd (detect_loop w (q # ps) kubectl s) =
        s\<lparr>calls := calls s @ map EvDetect (q # qs)\<rparr>"
      by (simp add: Detect_def record_call_def)
    then show ?thesis by blast
  qed
qed


lemma detect_loop_memo:
  "clusterMemo (snd (detect_loop w ps kubectl s)) = clusterMemo s"
proof -
  obtain qs where "snd (detect_loop w ps kubectl s) = s\<lparr>calls := calls s @ map EvDetect qs\<rparr>"
    using detect_loop_calls by blast
  then show ?thesis by simp
qed

text \<open>The construction path of GetCluster, once the config and the client are there.\<close>

lemma GetCluster_construct:
  assumes "clusterMemo s = None"
    and "KubeConfig_answer w (calls s) = Inr restConfig"
    and "NewForConfig_answer w (calls s @ [EvKubeConfig]) (restConfig\<lparr>WarningHandler := NoWarnings\<rparr>) =
         Inr clientset"
    and "s2 = s\<lparr>calls := calls s @ [EvKubeConfig,
            EvNewForConfig (restConfig\<lparr>WarningHandler := NoWarnings\<rparr>)]\<rparr>"
    and "detectPlatform w clientset s2 = (detected, s3)"
    and "p = (case detected of None \<Rightarrow> Generic | Some q \<Rightarrow> q)"
  shows "GetCluster w s =
     (case Load_answer w (calls s3) p clientset of
        Some err \<Rightarrow> ((None, Some err), record_call (EvLoad p) s3)
      | None \<Rightarrow>
          ((Some \<lparr>Kubectl = clientset, RestConfig = restConfig, platform = Some p\<rparr>, None),
           (record_call (EvLoad p) s3)
             \<lparr>clusterMemo := Some \<lparr>Kubectl = clientset, RestConfig = restConfig,
                                    platform = Some p\<rparr>\<rparr>))"
proof -
  have k: "KubeConfig w s = (Inr restConfig, record_call EvKubeConfig s)"
    using assms(2) by (simp add: KubeConfig_def)
  have n: "NewForConfig w (restConfig\<lparr>WarningHandler := NoWarnings\<rparr>)
      (record_call EvKubeConfig s) = (Inr clientset, s2)"
    using assms(3,4) by (simp add: NewForConfig_def record_call_def)
  show ?thesis
    by (simp add: GetCluster_def assms(1) k CopyConfig_def n assms(5) assms(6) [symmetric]
        Load_def Let_def split: option.split)
qed

lemma GetCluster_memo_hit: "clusterMemo s = Some memo \<Longrightarrow> GetCluster w s = ((Some memo, None), s)"
  by (simp add: GetCluster_def)

lemma GetCluster_KubeConfig_fails:
  "clusterMemo s = None \<Longrightarrow> KubeConfig_answer w (calls s) = Inl e \<Longrightarrow>
   GetCluster w s = ((None, Some e), record_call EvKubeConfig s)"
  by (simp add: GetCluster_def KubeConfig_def)

lemma GetCluster_NewForConfig_fails:
  "clusterMemo s = None \<Longrightarrow> KubeConfig_answer w (calls s) = Inr restConfig \<Longrightarrow>
   NewForConfig_answer w (calls s @ [EvKubeConfig]) (restConfig\<lparr>WarningHandler := NoWarnings\<rparr>) = Inl e \<Longrightarrow>
   GetCluster w s = ((None, Some e),
     s\<lparr>calls := calls s @ [EvKubeConfig, EvNewForConfig (restConfig\<lparr>WarningHandler := NoWarnings\<rparr>)]\<rparr>)"
  by (simp add: GetCluster_def KubeConfig_def NewForConfig_def CopyConfig_def record_call_def)

lemma GetCluster_fresh:
  assumes fresh: "clusterMemo s = None"
  shows "(\<exists>rest. calls (snd (GetCluster w s)) = calls s @ EvKubeConfig # rest) \<and>
     ((\<exists>e. fst (GetCluster w s) = (None, Some e) \<and> clusterMemo (snd (GetCluster w s)) = None) \<or>
      (\<exists>c. fst (GetCluster w s) = (Some c, None) \<and> clusterMemo (snd (GetCluster w s)) = Some c))"
proof (cases "KubeConfig_answer w (calls s)")
  case (Inl e)
  from GetCluster_KubeConfig_fails [OF fresh Inl] show ?thesis
    using fresh by (simp add: record_call_def)
next
  case (Inr restConfig)
  let ?config = "restConfig\<lparr>WarningHandler := NoWarnings\<rparr>"
  let ?s2 = "s\<lparr>calls := calls s @ [EvKubeConfig, EvNewForConfig ?config]\<rparr>"
  show ?thesis
  proof (cases "NewForConfig_answer w (calls s @ [EvKubeConfig]) ?config")
    case (Inl e)
    from GetCluster_NewForConfig_fails [OF fresh Inr Inl] show ?thesis
      using fresh by simp
  next
    case clientset: (Inr clientset)
    obtain detected s3 where d: "detectPlatform w clientset ?s2 = (detected, s3)"
      by (cases "detectPlatform w clientset ?s2") blast
    define p where "p = (case detected of None \<Rightarrow> Generic | Some q \<Rightarrow> q)"
    note built = GetCluster_construct [OF fresh Inr clientset refl d p_def]
    obtain qs where "snd (detect_loop w SupportedPlatforms clientset ?s2) =
        ?s2\<lparr>calls := calls ?s2 @ map EvDetect qs\<rparr>"
      using detect_loop_calls by blast
    with d have s3: "s3 = ?s2\<lparr>calls := calls ?s2 @ map EvDetect qs\<rparr>"
      by (simp add: detectPlatform_def)
    show ?thesis
    proof (cases "Load_answer w (calls s3) p clientset")
      case None
      with built show ?thesis by (simp add: record_call_def s3)
    next
      case (Some err)
      with built show ?thesis using fresh by (simp add: record_call_def s3)
    qed
  qed
qed


lemmas GetCluster_eval = GetCluster_def KubeConfig_def NewForConfig_def CopyConfig_def
  detectPlatform_def SupportedPlatforms_def Detect_def Load_def record_call_def Let_def


section \<open>The cluster handle is memoized only when its construction succeeds\<close>

text \<open>
  C1. When a call of \<open>GetCluster\<close> succeeds, \<open>clusterMemo\<close> holds the handle returned and
  every later call returns that handle and leaves the state as it is: no call is made, so
  neither detection nor \<open>Load\<close> runs again. When a call fails (the kubeconfig cannot be
  loaded, the client cannot be built, or \<open>Load\<close> fails) it returns no handle and
  \<open>clusterMemo\<close> stays nil, so the next call starts again with the kubeconfig.
\<close>

theorem GetCluster_memoizes:
  "(\<forall>c. fst (GetCluster w s) = (Some c, None) \<longrightarrow>
      clusterMemo (snd (GetCluster w s)) = Some c \<and>
      (\<forall>w'. GetCluster w' (snd (GetCluster w s)) = ((Some c, None), snd (GetCluster w s)))) \<and>
   (\<forall>c. clusterMemo s = Some c \<longrightarrow> (\<forall>w'. GetCluster w' s = ((Some c, None), s))) \<and>
   (\<forall>e. snd (fst (GetCluster w s)) = Some e \<longrightarrow>
      fst (fst (GetCluster w s)) = None \<and> clusterMemo s = None \<and>
      clusterMemo (snd (GetCluster w s)) = None \<and>
      (\<forall>w'. \<exists>rest. calls (snd (GetCluster w' (snd (GetCluster w s)))) =
              calls (snd (GetCluster w s)) @ EvKubeConfig # rest)) \<and>
   (\<forall>e. clusterMemo s = None \<and> KubeConfig_answer w (calls s) = Inl e \<longrightarrow>
      fst (GetCluster w s) = (None, Some e)) \<and>
   (\<forall>restConfig e. clusterMemo s = None \<and> KubeConfig_answer w (calls s) = Inr restConfig \<and>
      NewForConfig_answer w (calls s @ [EvKubeConfig]) (restConfig\<lparr>WarningHandler := NoWarnings\<rparr>) =
        Inl e \<longrightarrow>
      fst (GetCluster w s) = (None, Some e)) \<and>
   (\<forall>restConfig clientset detected s3 e.
      clusterMemo s = None \<and> KubeConfig_answer w (calls s) = Inr restConfig \<and>
      NewForConfig_answer w (calls s @ [EvKubeConfig]) (restConfig\<lparr>WarningHandler := NoWarnings\<rparr>) =
        Inr clientset \<and>
      detectPlatform w clientset
        (s\<lparr>calls := calls s @ [EvKubeConfig,
              EvNewForConfig (restConfig\<lparr>WarningHandler := NoWarnings\<rparr>)]\<rparr>) = (detected, s3) \<and>
      Load_answer w (calls s3) (case detected of None \<Rightarrow> Generic | Some q \<Rightarrow> q) clientset = Some e \<longrightarrow>
      fst (GetCluster w s) = (None, Some e))"
proof (intro conjI allI impI)
  fix c
  assume ok: "fst (GetCluster w s) = (Some c, None)"
  show memo: "clusterMemo (snd (GetCluster w s)) = Some c"
  proof (cases "clusterMemo s")
    case None
    from GetCluster_fresh [OF None, of w] ok show ?thesis by auto
  next
    case (Some memo)
    from GetCluster_memo_hit [OF Some, of w] ok show ?thesis using Some by simp
  qed
  fix w'
  show "GetCluster w' (snd (GetCluster w s)) = ((Some c, None), snd (GetCluster w s))"
    using GetCluster_memo_hit [OF memo] .
next
  fix c w'
  assume "clusterMemo s = Some c"
  then show "GetCluster w' s = ((Some c, None), s)"
    by (rule GetCluster_memo_hit)
next
  fix e
  assume failed: "snd (fst (GetCluster w s)) = Some e"
  show fresh: "clusterMemo s = None"
  proof (cases "clusterMemo s")
    case None
    then show ?thesis .
  next
    case (Some memo)
    from GetCluster_memo_hit [OF Some, of w] failed show ?thesis by simp
  qed
  from GetCluster_fresh [OF fresh, of w] failed
  show "fst (fst (GetCluster w s)) = None"
    and after: "clusterMemo (snd (GetCluster w s)) = None"
    by auto
  fix w'
  from GetCluster_fresh [OF after, of w']
  show "\<exists>rest. calls (snd (GetCluster w' (snd (GetCluster w s)))) =
              calls (snd (GetCluster w s)) @ EvKubeConfig # rest"
    by blast
next
  fix e
  assume "clusterMemo s = None \<and> KubeConfig_answer w (calls s) = Inl e"
  then show "fst (GetCluster w s) = (None, Some e)"
    using GetCluster_KubeConfig_fails [of s w e] by simp
next
  fix restConfig e
  assume "clusterMemo s = None \<and> KubeConfig_answer w (calls s) = Inr restConfig \<and>
      NewForConfig_answer w (calls s @ [EvKubeConfig]) (restConfig\<lparr>WarningHandler := NoWarnings\<rparr>) =
        Inl e"
  then show "fst (GetCluster w s) = (None, Some e)"
    using GetCluster_NewForConfig_fails [of s w restConfig e] by simp
next
  fix restConfig clientset detected s3 e
  assume h: "clusterMemo s = None \<and> KubeConfig_answer w (calls s) = Inr restConfig \<and>
      NewForConfig_answer w (calls s @ [EvKubeConfig]) (restConfig\<lparr>WarningHandler := NoWarnings\<rparr>) =
        Inr clientset \<and>
      detectPlatform w clientset
        (s\<lparr>calls := calls s @ [EvKubeConfig,
              EvNewForConfig (restConfig\<lparr>WarningHandler := NoWarnings\<rparr>)]\<rparr>) = (detected, s3) \<and>
      Load_answer w (calls s3) (case detected of None \<Rightarrow> Generic | Some q \<Rightarrow> q) clientset = Some e"
  then show "fst (GetCluster w s) = (None, Some e)"
    using GetCluster_construct [of s w restConfig clientset _ detected s3, OF _ _ _ refl _ refl]
    by simp
qed

theorem GetCluster_memoizes_witness:
  "GetCluster world_load_flaky start = ((None, Some (OtherError ''no external ip'')), first_attempt) \<and>
   clusterMemo first_attempt = None \<and>
   GetCluster world_load_flaky first_attempt = ((Some handle, None), second_attempt) \<and>
   clusterMemo second_attempt = Some handle \<and>
   GetCluster world_load_flaky second_attempt = ((Some handle, None), second_attempt)"
proof -
  have a: "GetCluster world_load_flaky start =
      ((None, Some (OtherError ''no external ip'')), first_attempt)"
    by (simp add: GetCluster_eval world_load_flaky_def quiet_world_def start_def
        first_attempt_def quiet_config_def)
  have b: "GetCluster world_load_flaky first_attempt = ((Some handle, None), second_attempt)"
    by (simp add: GetCluster_eval world_load_flaky_def quiet_world_def handle_def
        first_attempt_def second_attempt_def quiet_config_def)
  note failing = GetCluster_memoizes [of world_load_flaky start]
  note succeeding = GetCluster_memoizes [of world_load_flaky first_attempt]
  from failing a have r1: "clusterMemo (snd (GetCluster world_load_flaky start)) = None"
    by simp
  from succeeding b have r2: "clusterMemo (snd (GetCluster world_load_flaky first_attempt)) =
      Some handle \<and>
      GetCluster world_load_flaky (snd (GetCluster world_load_flaky first_attempt)) =
        ((Some handle, None), snd (GetCluster world_load_flaky first_attempt))"
    by simp
  show ?thesis
    using r1 r2 by (simp add: a b)
qed

section \<open>The docker config holds one entry for each URL\<close>

text \<open>The encoder agrees with the test vectors of RFC 4648.\<close>

lemma EncodeToString_rfc4648:
  "EncodeToString '''' = ''''"
  "EncodeToString ''f'' = ''Zg==''"
  "EncodeToString ''fo'' = ''Zm8=''"
  "EncodeToString ''foo'' = ''Zm9v''"
  "EncodeToString ''foob'' = ''Zm9vYg==''"
  "EncodeToString ''fooba'' = ''Zm9vYmE=''"
  "EncodeToString ''foobar'' = ''Zm9vYmFy''"
  by (simp_all add: EncodeToString_def sextet_def encodeStd_def)

lemma DockerConfigJSON_loop_error_iff:
  "(\<exists>e. DockerConfigJSON_loop rs result = Inl e) \<longleftrightarrow> (\<exists>r \<in> set rs. URL r = [])"
  by (induction rs arbitrary: result) (simp_all add: Let_def)

lemma DockerConfigJSON_loop_untouched:
  "DockerConfigJSON_loop rs result = Inr out \<Longrightarrow> u \<notin> URL ` set rs \<Longrightarrow>
   Auths out u = Auths result u"
  by (induction rs arbitrary: result) (auto simp: Let_def split: if_splits)

lemma DockerConfigJSON_loop_append:
  "DockerConfigJSON_loop (pre @ rest) result = Inr out \<Longrightarrow>
   \<exists>mid. DockerConfigJSON_loop pre result = Inr mid \<and> DockerConfigJSON_loop rest mid = Inr out"
  by (induction pre arbitrary: result) (auto simp: Let_def split: if_splits)

lemma DockerConfigJSON_loop_dom:
  "DockerConfigJSON_loop rs result = Inr out \<Longrightarrow>
   dom (Auths out) = dom (Auths result) \<union> URL ` set rs"
  by (induction rs arbitrary: result) (auto simp: Let_def split: if_splits)

lemma DockerConfigJSON_loop_last_wins:
  assumes "DockerConfigJSON_loop (pre @ r # post) result = Inr out"
    and "URL r \<notin> URL ` set post"
  shows "Auths out (URL r) =
     Some \<lparr>Auth = EncodeToString (Username r @ '':'' @ Password r),
           AuthUsername = Username r, AuthPassword = Password r\<rparr>"
proof -
  from DockerConfigJSON_loop_append [OF assms(1)] obtain mid where
    mid: "DockerConfigJSON_loop (r # post) mid = Inr out"
    by blast
  let ?auth = "\<lparr>Auth = EncodeToString (Username r @ '':'' @ Password r),
           AuthUsername = Username r, AuthPassword = Password r\<rparr>"
  from mid have "DockerConfigJSON_loop post (mid\<lparr>Auths := (Auths mid)(URL r \<mapsto> ?auth)\<rparr>) = Inr out"
    by (simp add: Let_def split: if_splits)
  from DockerConfigJSON_loop_untouched [OF this assms(2)] show ?thesis
    by simp
qed

text \<open>
  C9, as the code has it. \<open>DockerConfigJSON\<close> returns an error exactly when some
  credential has an empty URL. On success the keys of \<open>Auths\<close> are the URLs of the
  credentials, and for each credential that no later credential shares its URL with,
  the entry at its URL has its username and password and, as \<open>Auth\<close>, the standard
  base64 encoding of the username, a colon and the password. (Of two credentials with
  one URL the later one overwrites the entry of the earlier one.)
\<close>

theorem DockerConfigJSON_last_credential_wins:
  "((\<exists>e. DockerConfigJSON d = Inl e) \<longleftrightarrow> (\<exists>r \<in> set (RegistryCredentials d). URL r = [])) \<and>
   (\<forall>result pre r post. DockerConfigJSON d = Inr result \<and>
      RegistryCredentials d = pre @ r # post \<and> URL r \<notin> URL ` set post \<longrightarrow>
      Auths result (URL r) =
        Some \<lparr>Auth = EncodeToString (Username r @ '':'' @ Password r),
              AuthUsername = Username r, AuthPassword = Password r\<rparr>) \<and>
   (\<forall>result. DockerConfigJSON d = Inr result \<longrightarrow>
      dom (Auths result) = URL ` set (RegistryCredentials d))"
proof (intro conjI allI impI)
  show "(\<exists>e. DockerConfigJSON d = Inl e) \<longleftrightarrow> (\<exists>r \<in> set (RegistryCredentials d). URL r = [])"
    unfolding DockerConfigJSON_def by (rule DockerConfigJSON_loop_error_iff)
next
  fix result pre r post
  assume "DockerConfigJSON d = Inr result \<and>
      RegistryCredentials d = pre @ r # post \<and> URL r \<notin> URL ` set post"
  then show "Auths result (URL r) =
        Some \<lparr>Auth = EncodeToString (Username r @ '':'' @ Password r),
              AuthUsername = Username r, AuthPassword = Password r\<rparr>"
    using DockerConfigJSON_loop_last_wins [of pre r post "\<lparr>Auths = Map.empty\<rparr>" result]
    by (auto simp: DockerConfigJSON_def)
next
  fix result
  assume "DockerConfigJSON d = Inr result"
  then show "dom (Auths result) = URL ` set (RegistryCredentials d)"
    using DockerConfigJSON_loop_dom [of "RegistryCredentials d" "\<lparr>Auths = Map.empty\<rparr>" result]
    by (simp add: DockerConfigJSON_def)
qed

lemma dup_eval:
  "DockerConfigJSON dup_details = Inr \<lparr>Auths = [''registry.example.com'' \<mapsto> bob_auth]\<rparr>"
  by (simp add: DockerConfigJSON_def dup_details_def alice_def bob_def bob_auth_def Let_def
      EncodeToString_def sextet_def encodeStd_def)

text \<open>
  C9 as stated fails where two credentials share a URL: the entry at the URL of the
  first credential carries the username of the second.
\<close>

theorem DockerConfigJSON_duplicate_URL_counterexample:
  "DockerConfigJSON dup_details = Inr dup_result \<and>
   alice \<in> set (RegistryCredentials dup_details) \<and>
   map_option AuthUsername (Auths dup_result (URL alice)) \<noteq> Some (Username alice)"
  by (simp add: dup_eval dup_result_def) (simp add: dup_details_def alice_def bob_auth_def)

theorem DockerConfigJSON_last_credential_wins_witness:
  "(\<exists>e. DockerConfigJSON empty_url_details = Inl e) \<and>
   DockerConfigJSON dup_details = Inr \<lparr>Auths = [''registry.example.com'' \<mapsto> bob_auth]\<rparr> \<and>
   Auths \<lparr>Auths = [''registry.example.com'' \<mapsto> bob_auth]\<rparr> (URL bob) =
     Some \<lparr>Auth = EncodeToString (Username bob @ '':'' @ Password bob),
           AuthUsername = Username bob, AuthPassword = Password bob\<rparr> \<and>
   dom (Auths \<lparr>Auths = [''registry.example.com'' \<mapsto> bob_auth]\<rparr>) =
     URL ` set (RegistryCredentials dup_details)"
proof -
  have a: "\<exists>r \<in> set (RegistryCredentials empty_url_details). URL r = []"
    by (simp add: empty_url_details_def)
  from DockerConfigJSON_last_credential_wins [of empty_url_details] a
  have r1: "\<exists>e. DockerConfigJSON empty_url_details = Inl e"
    by blast
  have b: "DockerConfigJSON dup_details = Inr \<lparr>Auths = [''registry.example.com'' \<mapsto> bob_auth]\<rparr> \<and>
      RegistryCredentials dup_details = [alice] @ bob # [] \<and> URL bob \<notin> URL ` set []"
    by (simp add: dup_eval) (simp add: dup_details_def)
  from DockerConfigJSON_last_credential_wins [of dup_details] b
  have r2: "Auths \<lparr>Auths = [''registry.example.com'' \<mapsto> bob_auth]\<rparr> (URL bob) =
     Some \<lparr>Auth = EncodeToString (Username bob @ '':'' @ Password bob),
           AuthUsername = Username bob, AuthPassword = Password bob\<rparr>"
    by blast
  from DockerConfigJSON_last_credential_wins [of dup_details] b
  have r3: "dom (Auths \<lparr>Auths = [''registry.example.com'' \<mapsto> bob_auth]\<rparr>) =
     URL ` set (RegistryCredentials dup_details)"
    by blast
  show ?thesis
    using r1 b r2 r3 by blast
qed

section \<open>Without a localhost registry the image URL is left alone\<close>

lemma first_url_where_none:
  "\<forall>r \<in> set rs. \<not> P (URL r) \<Longrightarrow> first_url_where P rs = []"
  by (induction rs) simp_all

text \<open>
  C10. When no credential URL contains \<open>127.0.0.1\<close>, \<open>PrivateRegistryURL\<close> returns the
  empty string and \<open>ReplaceWithInternalRegistry\<close> returns the image URL unchanged with a
  nil error, whatever the parser of image references would answer: it is not asked.
\<close>

theorem ReplaceWithInternalRegistry_without_localhost:
  "\<forall>r \<in> set (RegistryCredentials d). \<not> sublist ''127.0.0.1'' (URL r) \<Longrightarrow>
   PrivateRegistryURL d = ([], None) \<and>
   ReplaceWithInternalRegistry parse d imageURL = (imageURL, None)"
proof -
  assume "\<forall>r \<in> set (RegistryCredentials d). \<not> sublist ''127.0.0.1'' (URL r)"
  then have "\<forall>r \<in> set (RegistryCredentials d). \<not> MatchString (Literal ''127.0.0.1'') (URL r)"
    by simp
  then have "first_url_where (MatchString (Literal ''127.0.0.1'')) (RegistryCredentials d) = []"
    by (rule first_url_where_none)
  then have no_localhost: "PrivateRegistryURL d = ([], None)"
    by (simp add: PrivateRegistryURL_def Compile_localhost_def)
  then show ?thesis
    by (simp add: ReplaceWithInternalRegistry_def)
qed

theorem ReplaceWithInternalRegistry_without_localhost_witness:
  "PrivateRegistryURL external_details = ([], None) \<and>
   ReplaceWithInternalRegistry failing_parse external_details ''registry.example.com/apps/web:1'' =
     (''registry.example.com/apps/web:1'', None)"
proof -
  have a: "\<forall>r \<in> set (RegistryCredentials external_details). \<not> sublist ''127.0.0.1'' (URL r)"
    by (simp add: external_details_def alice_def sublist_Cons_right prefix_Cons)
  from ReplaceWithInternalRegistry_without_localhost [OF a] show ?thesis .
qed

text \<open>With a localhost registry the registry part of an image on the public registry is
  replaced.\<close>

lemma ReplaceWithInternalRegistry_internal_example:
  "ReplaceWithInternalRegistry (\<lambda>u. Inr (''registry.example.com'', ''apps/web''))
     internal_details ''registry.example.com/apps/web:1'' = (''127.0.0.1:30500/apps/web:1'', None)"
  by (simp add: ReplaceWithInternalRegistry_def PrivateRegistryURL_def PublicRegistryURL_def
      Compile_localhost_def internal_details_def local_registry_def alice_def ExtractImageParts_def
      Replace_def sublist_Cons_right prefix_Cons)

end
